theory Spec2Isabelle
  imports Main
begin

section \<open>Python values\<close>

text \<open>
  The values that \<^verbatim>\<open>sp/models.py\<close> stores in model fields and puts into the
  settings dictionary: \<^verbatim>\<open>None\<close>, booleans, integers, strings, datetimes, lists and
  dictionaries with string keys. A datetime is the number of microseconds since
  \<^verbatim>\<open>datetime.min\<close> (0001-01-01T00:00:00). A dictionary is an association list in
  insertion order; Python keeps its keys unique, and every operation below keeps them so.
\<close>

type_synonym datetime = int

datatype pyval =
    PNone
  | PBool bool
  | PInt int
  | PStr string
  | PDateTime datetime
  | PList "pyval list"
  | PDict "(string \<times> pyval) list"

type_synonym pydict = "(string \<times> pyval) list"

text \<open>Truthiness, as \<^verbatim>\<open>if x:\<close> and \<^verbatim>\<open>x or y\<close> test it.\<close>

fun truthy :: "pyval \<Rightarrow> bool" where
  "truthy PNone = False"
| "truthy (PBool b) = b"
| "truthy (PInt n) = (n \<noteq> 0)"
| "truthy (PStr s) = (s \<noteq> [])"
| "truthy (PDateTime t) = True"
| "truthy (PList xs) = (xs \<noteq> [])"
| "truthy (PDict d) = (d \<noteq> [])"

text \<open>\<^verbatim>\<open>x or y\<close>: the first operand when it is truthy, else the second.\<close>

definition py_or :: "pyval \<Rightarrow> pyval \<Rightarrow> pyval" where
  "py_or x y = (if truthy x then x else y)"

text \<open>\<^verbatim>\<open>d[k] = v\<close>: an existing key keeps its place, a new key goes last.\<close>

fun setitem :: "'k \<Rightarrow> 'v \<Rightarrow> ('k \<times> 'v) list \<Rightarrow> ('k \<times> 'v) list" where
  "setitem k v [] = [(k, v)]"
| "setitem k v ((k', v') # d) = (if k' = k then (k, v) # d else (k', v') # setitem k v d)"

text \<open>\<^verbatim>\<open>d.update(other)\<close>: \<^verbatim>\<open>d[k] = v\<close> for every item of \<^verbatim>\<open>other\<close>, in order.\<close>

definition dict_update :: "('k \<times> 'v) list \<Rightarrow> ('k \<times> 'v) list \<Rightarrow> ('k \<times> 'v) list" where
  "dict_update d other = fold (\<lambda>(k, v). setitem k v) other d"

text \<open>
  \<^verbatim>\<open>d[k1][k2]...[kn]\<close> without the \<^verbatim>\<open>KeyError\<close>: \<open>None\<close> when a key is missing or
  a value on the way is not a dictionary.
\<close>

fun get_path :: "pydict \<Rightarrow> string list \<Rightarrow> pyval option" where
  "get_path d [] = None"
| "get_path d [k] = map_of d k"
| "get_path d (k # ks) =
     (case map_of d k of Some (PDict d') \<Rightarrow> get_path d' ks | _ \<Rightarrow> None)"

section \<open>Exceptions\<close>

text \<open>
  The exceptions the modelled methods can end with. \<open>LibraryError\<close> stands for whatever
  an external library raises (the metadata fetch, the XML parser, the cryptography
  backend); its text is the library's. \<open>MissingNameIdAttributeError\<close> is the name the
  specification uses; the source defines no such class and never raises it.
\<close>

datatype error =
    TypeError
  | IndexError
  | AttributeError
  | ValueError
  | OverflowError
  | JSONDecodeError
  | IntegrityError
  | LibraryError string
  | MissingNameIdAttributeError

section \<open>The IdP model\<close>

text \<open>
  The fields of \<^verbatim>\<open>class IdP(models.Model)\<close> that the modelled methods read or write,
  with the primary key Django adds. \<^verbatim>\<open>url_params\<close> is the dictionary the field's
  default (\<^verbatim>\<open>dict\<close>) and help text describe; the nullable datetime fields are options.
\<close>

record IdP =
  pk :: nat
  name :: string
  url_params :: pydict
  base_url :: string
  entity_id :: string
  contact_name :: string
  contact_email :: string
  x509_certificate :: string
  private_key :: string
  certificate_expires :: "datetime option"
  metadata_url :: string
  verify_metadata_cert :: bool
  metadata_xml :: string
  saml_settings :: string
  last_import :: "datetime option"
  login_redirect :: string
  logout_redirect :: string
  require_attributes :: bool
  authn_comparison :: string
  authn_context :: pyval

text \<open>A nullable datetime field as the Python value read from it.\<close>

definition py_datetime :: "datetime option \<Rightarrow> pyval" where
  "py_datetime t = (case t of None \<Rightarrow> PNone | Some x \<Rightarrow> PDateTime x)"

subsection \<open>URL resolution\<close>

text \<open>
  Django's \<^verbatim>\<open>reverse(name, kwargs=...)\<close> is a parameter of the model: \<open>Some path\<close> when
  the named route resolves with the given parameters, \<open>None\<close> for \<^verbatim>\<open>NoReverseMatch\<close>.
\<close>

type_synonym reverse = "string \<Rightarrow> pydict \<Rightarrow> string option"

definition get_url :: "reverse \<Rightarrow> IdP \<Rightarrow> string \<Rightarrow> string \<Rightarrow> string" where
  "get_url reverse self nm dflt =
     (case reverse nm (url_params self) of Some path \<Rightarrow> path | None \<Rightarrow> dflt)"

definition get_absolute_url :: "reverse \<Rightarrow> IdP \<Rightarrow> string" where
  "get_absolute_url reverse self = get_url reverse self ''sp-idp-metadata'' ''/''"

definition get_entity_id :: "reverse \<Rightarrow> IdP \<Rightarrow> string" where
  "get_entity_id reverse self =
     (if entity_id self \<noteq> [] then entity_id self
      else base_url self @ get_absolute_url reverse self)"

definition get_acs :: "reverse \<Rightarrow> IdP \<Rightarrow> string" where
  "get_acs reverse self = base_url self @ get_url reverse self ''sp-idp-acs'' ''/''"

definition get_slo :: "reverse \<Rightarrow> IdP \<Rightarrow> string" where
  "get_slo reverse self = base_url self @ get_url reverse self ''sp-idp-slo'' ''/''"

definition get_login_url :: "reverse \<Rightarrow> IdP \<Rightarrow> string" where
  "get_login_url reverse self = get_url reverse self ''sp-idp-login'' ''/''"

definition get_test_url :: "reverse \<Rightarrow> IdP \<Rightarrow> string" where
  "get_test_url reverse self = get_url reverse self ''sp-idp-test'' ''/''"

definition get_verify_url :: "reverse \<Rightarrow> IdP \<Rightarrow> string" where
  "get_verify_url reverse self = get_url reverse self ''sp-idp-verify'' ''/''"

definition get_logout_url :: "reverse \<Rightarrow> IdP \<Rightarrow> string" where
  "get_logout_url reverse self = get_url reverse self ''sp-idp-logout'' ''/''"

text \<open>
  The contract of the routing capability that the entity ID relies on: a resolved path is
  absolute, so it starts with a slash. (Django's \<^verbatim>\<open>reverse\<close> prepends the script
  prefix, which always ends with a slash.)
\<close>

definition absolute_paths :: "reverse \<Rightarrow> bool" where
  "absolute_paths reverse = (\<forall>nm ps path. reverse nm ps = Some path \<longrightarrow> (\<exists>r. path = CHR ''/'' # r))"

subsection \<open>Settings\<close>

definition sp_settings :: "reverse \<Rightarrow> IdP \<Rightarrow> pydict" where
  "sp_settings reverse self =
     [(''strict'', PBool True),
      (''sp'', PDict
         [(''NameIDFormat'', PStr ''urn:oasis:names:tc:SAML:1.1:nameid-format:unspecified''),
          (''entityId'', PStr (get_entity_id reverse self)),
          (''assertionConsumerService'', PDict
             [(''url'', PStr (get_acs reverse self)),
              (''binding'', PStr ''urn:oasis:names:tc:SAML:2.0:bindings:HTTP-POST'')]),
          (''singleLogoutService'', PDict
             [(''url'', PStr (get_slo reverse self)),
              (''binding'', PStr ''urn:oasis:names:tc:SAML:2.0:bindings:HTTP-Redirect'')]),
          (''x509cert'', PStr (x509_certificate self)),
          (''privateKey'', PStr (private_key self))]),
      (''security'', PDict
         [(''wantAttributeStatement'', PBool (require_attributes self)),
          (''metadataValidUntil'', py_datetime (certificate_expires self)),
          (''requestedAuthnContextComparison'', PStr (authn_comparison self)),
          (''requestedAuthnContext'', authn_context self)]),
      (''contactPerson'', PDict
         [(''technical'', PDict
             [(''givenName'', PStr (contact_name self)),
              (''emailAddress'', PStr (contact_email self))])])]"

text \<open>
  \<^verbatim>\<open>json.loads\<close> is a parameter: the value a text deserialises to, or
  \<^verbatim>\<open>JSONDecodeError\<close>. A text that deserialises to anything but an object has no
  \<^verbatim>\<open>update\<close> method, which is Python's \<^verbatim>\<open>AttributeError\<close>.
\<close>

type_synonym json_loads = "string \<Rightarrow> error + pyval"

definition settings :: "json_loads \<Rightarrow> reverse \<Rightarrow> IdP \<Rightarrow> error + pydict" where
  "settings loads reverse self =
     (case loads (saml_settings self) of
        Inl e \<Rightarrow> Inl e
      | Inr (PDict settings_dict) \<Rightarrow> Inr (dict_update settings_dict (sp_settings reverse self))
      | Inr _ \<Rightarrow> Inl AttributeError)"

subsection \<open>Redirects\<close>

text \<open>
  \<^verbatim>\<open>settings.LOGIN_REDIRECT_URL\<close> and \<^verbatim>\<open>settings.LOGOUT_REDIRECT_URL\<close> of the host
  application are parameters (Django's default for the second is \<^verbatim>\<open>None\<close>).
\<close>

definition get_login_redirect :: "pyval \<Rightarrow> IdP \<Rightarrow> pyval \<Rightarrow> pyval" where
  "get_login_redirect LOGIN_REDIRECT_URL self redir =
     py_or (py_or redir (PStr (login_redirect self))) LOGIN_REDIRECT_URL"

definition get_logout_redirect :: "pyval \<Rightarrow> IdP \<Rightarrow> pyval \<Rightarrow> pyval" where
  "get_logout_redirect LOGOUT_REDIRECT_URL self redir =
     py_or (py_or redir (PStr (logout_redirect self))) LOGOUT_REDIRECT_URL"

section \<open>Attribute mappings\<close>

text \<open>
  A row of \<^verbatim>\<open>class IdPAttribute(models.Model)\<close>: its primary key, the primary key of
  the IdP it belongs to (the foreign key \<^verbatim>\<open>idp\<close>) and its fields. The table is the list
  of its rows in the order the database returns them to an unordered query.
\<close>

record IdPAttribute =
  attr_pk :: nat
  idp :: nat
  saml_attribute :: string
  mapped_name :: string
  is_nameid :: bool
  always_update :: bool

type_synonym attribute_table = "IdPAttribute list"

text \<open>The related manager \<^verbatim>\<open>self.attributes\<close>: the rows whose foreign key is this IdP.\<close>

definition attributes :: "attribute_table \<Rightarrow> IdP \<Rightarrow> IdPAttribute list" where
  "attributes table self = filter (\<lambda>a. idp a = pk self) table"

text \<open>
  \<^verbatim>\<open>QuerySet.first()\<close> on a query without an ordering orders by primary key: the row
  with the least key, \<open>None\<close> for no row.
\<close>

fun qs_first :: "IdPAttribute list \<Rightarrow> IdPAttribute option" where
  "qs_first [] = None"
| "qs_first (a # rows) =
     (case qs_first rows of
        None \<Rightarrow> Some a
      | Some b \<Rightarrow> if attr_pk a \<le> attr_pk b then Some a else Some b)"

text \<open>
  The parsed assertion, as the protocol library hands it over: \<^verbatim>\<open>get_attribute(name)\<close>
  is the attribute's list of values or \<^verbatim>\<open>None\<close>, \<^verbatim>\<open>get_nameid()\<close> the NameID the
  library computed.
\<close>

record saml_auth =
  get_attribute :: "string \<Rightarrow> string list option"
  saml_get_nameid :: pyval

text \<open>
  The loop of \<^verbatim>\<open>mapped_attributes\<close> over \<^verbatim>\<open>self.attributes.exclude(mapped_name="")\<close>;
  the result is the \<^verbatim>\<open>OrderedDict\<close> as the list of its items.
\<close>

definition mapped_attributes ::
    "attribute_table \<Rightarrow> IdP \<Rightarrow> saml_auth \<Rightarrow> (string \<times> string list) list" where
  "mapped_attributes table self saml =
     fold (\<lambda>attr attrs.
             case get_attribute saml (saml_attribute attr) of
               None \<Rightarrow> attrs
             | Some val \<Rightarrow> setitem (mapped_name attr) val attrs)
          (filter (\<lambda>a. mapped_name a \<noteq> []) (attributes table self)) []"

text \<open>
  \<^verbatim>\<open>get_nameid\<close>. A model instance is always truthy, so \<^verbatim>\<open>if nameid_attr:\<close> tests for
  \<^verbatim>\<open>None\<close>. Subscripting \<^verbatim>\<open>None\<close> is a \<^verbatim>\<open>TypeError\<close>, subscripting an empty list
  an \<^verbatim>\<open>IndexError\<close>.
\<close>

definition get_nameid :: "attribute_table \<Rightarrow> IdP \<Rightarrow> saml_auth \<Rightarrow> error + pyval" where
  "get_nameid table self saml =
     (case qs_first (filter is_nameid (attributes table self)) of
        Some nameid_attr \<Rightarrow>
          (case get_attribute saml (saml_attribute nameid_attr) of
             None \<Rightarrow> Inl TypeError
           | Some [] \<Rightarrow> Inl IndexError
           | Some (v # _) \<Rightarrow> Inr (PStr v))
      | None \<Rightarrow> Inr (saml_get_nameid saml))"

subsection \<open>Creating and editing mappings\<close>

text \<open>
  The only constraint the model declares is \<^verbatim>\<open>unique_together = [("idp",
  "saml_attribute")]\<close>: the database refuses, with \<^verbatim>\<open>IntegrityError\<close>, a row that agrees
  with another row on both fields.
\<close>

definition unique_together_ok :: "IdPAttribute \<Rightarrow> attribute_table \<Rightarrow> bool" where
  "unique_together_ok a table =
     list_all (\<lambda>b. attr_pk b = attr_pk a
                    \<or> (idp b, saml_attribute b) \<noteq> (idp a, saml_attribute a)) table"

text \<open>The key an auto-incrementing primary key gives the next row.\<close>

definition next_pk :: "attribute_table \<Rightarrow> nat" where
  "next_pk table = Suc (fold max (map attr_pk table) 0)"

text \<open>
  \<^verbatim>\<open>Model.save()\<close>: an \<^verbatim>\<open>UPDATE\<close> of the row with the instance's primary key when
  there is one, an \<^verbatim>\<open>INSERT\<close> otherwise. Creating a mapping is saving an instance
  with a fresh key.
\<close>

definition save_attribute :: "IdPAttribute \<Rightarrow> attribute_table \<Rightarrow> error + attribute_table" where
  "save_attribute a table =
     (if \<not> unique_together_ok a table then Inl IntegrityError
      else if attr_pk a \<in> set (map attr_pk table)
      then Inr (map (\<lambda>b. if attr_pk b = attr_pk a then a else b) table)
      else Inr (table @ [a]))"

definition create_attribute :: "IdPAttribute \<Rightarrow> attribute_table \<Rightarrow> error + attribute_table" where
  "create_attribute a table = save_attribute (a\<lparr>attr_pk := next_pk table\<rparr>) table"

definition delete_attribute :: "nat \<Rightarrow> attribute_table \<Rightarrow> attribute_table" where
  "delete_attribute k table = filter (\<lambda>b. attr_pk b \<noteq> k) table"

text \<open>The tables that creating, editing and deleting mappings lead to from the empty one.\<close>

inductive reachable :: "attribute_table \<Rightarrow> bool" where
  empty: "reachable []"
| create: "reachable table \<Longrightarrow> create_attribute a table = Inr table' \<Longrightarrow> reachable table'"
| edit: "reachable table \<Longrightarrow> save_attribute a table = Inr table' \<Longrightarrow> reachable table'"
| delete: "reachable table \<Longrightarrow> reachable (delete_attribute k table)"

section \<open>Administrative operations\<close>

text \<open>
  The stored state is the table of IdP rows by primary key. A method works on the
  instance in memory; only \<^verbatim>\<open>self.save()\<close> writes the instance to its row. An
  operation returns its outcome, the instance and the table as it leaves them.
\<close>

type_synonym idp_table = "nat \<rightharpoonup> IdP"

definition save :: "IdP \<Rightarrow> idp_table \<Rightarrow> idp_table" where
  "save self db = db(pk self \<mapsto> self)"

subsection \<open>Metadata import\<close>

text \<open>
  The collaborators of \<^verbatim>\<open>import_metadata\<close> are parameters:
  \<^item> \<open>get_metadata url validate_cert\<close>: the document
    \<^verbatim>\<open>OneLogin_Saml2_IdPMetadataParser.get_metadata\<close> fetched, decoded as UTF-8, or the
    exception of the fetch or of the decoding;
  \<^item> \<open>parse xml\<close>: the settings \<^verbatim>\<open>OneLogin_Saml2_IdPMetadataParser.parse\<close> reads from
    the document, or its exception;
  \<^item> \<open>dumps v\<close>: \<^verbatim>\<open>json.dumps\<close>;
  \<^item> \<open>now\<close>: what \<^verbatim>\<open>timezone.now()\<close> returns.
\<close>

definition import_metadata ::
    "(string \<Rightarrow> bool \<Rightarrow> error + string) \<Rightarrow> (string \<Rightarrow> error + pyval) \<Rightarrow>
     (pyval \<Rightarrow> error + string) \<Rightarrow> datetime \<Rightarrow> IdP \<Rightarrow> idp_table \<Rightarrow>
     (error + unit) \<times> IdP \<times> idp_table" where
  "import_metadata get_metadata parse dumps now self db =
     (case (if metadata_url self \<noteq> []
            then (case get_metadata (metadata_url self) (verify_metadata_cert self) of
                    Inl e \<Rightarrow> Inl e
                  | Inr xml \<Rightarrow> Inr (self\<lparr>metadata_xml := xml\<rparr>))
            else Inr self) of
        Inl e \<Rightarrow> (Inl e, self, db)
      | Inr self1 \<Rightarrow>
          (case parse (metadata_xml self1) of
             Inl e \<Rightarrow> (Inl e, self1, db)
           | Inr parsed \<Rightarrow>
               (case dumps parsed of
                  Inl e \<Rightarrow> (Inl e, self1, db)
                | Inr blob \<Rightarrow>
                    (let self2 = self1\<lparr>saml_settings := blob, last_import := Some now\<rparr>
                     in (Inr (), self2, save self2 db)))))"

subsection \<open>Certificate generation\<close>

text \<open>
  The content of a certificate: what \<^verbatim>\<open>x509.CertificateBuilder()\<close> has been given
  when \<^verbatim>\<open>sign\<close> is called, and what the issued certificate holds. Keys and
  signatures are opaque numbers.
\<close>

record certificate_builder =
  subject_name :: string
  issuer_name :: string
  cert_public_key :: nat
  serial_number :: nat
  not_valid_before :: datetime
  not_valid_after :: datetime
  basic_constraints_ca :: bool
  basic_constraints_path_length :: "nat option"
  basic_constraints_critical :: bool

text \<open>
  The cryptography library, as the outcomes of the calls \<^verbatim>\<open>generate_certificate\<close>
  makes: key generation (2048 bits, public exponent 65537) and the random serial number
  are not functions of their arguments, so their outcomes are given; \<open>x509_name\<close>
  is \<^verbatim>\<open>x509.Name([x509.NameAttribute(NameOID.COMMON_NAME, netloc)])\<close>, which may refuse
  the host name; \<open>sign\<close> is the signature over a certificate's content, or the
  exception of the signing; \<open>public_bytes\<close> is the PEM text of an issued certificate.
\<close>

record crypto =
  generate_private_key :: "error + nat"
  private_bytes :: "nat \<Rightarrow> string"
  public_key :: "nat \<Rightarrow> nat"
  x509_name :: "string \<Rightarrow> error + string"
  random_serial_number :: nat
  sign :: "certificate_builder \<Rightarrow> nat \<Rightarrow> error + nat"
  public_bytes :: "certificate_builder \<times> nat \<Rightarrow> string"

text \<open>
  \<^verbatim>\<open>datetime.timedelta(days=3650)\<close> in microseconds, and \<^verbatim>\<open>datetime.max\<close>
  (9999-12-31T23:59:59.999999, the last microsecond of day 3652059): adding a timedelta
  past it is an \<^verbatim>\<open>OverflowError\<close>.
\<close>

definition timedelta_days :: "int \<Rightarrow> int" where
  "timedelta_days n = n * 86400000000"

definition datetime_max :: datetime where
  "datetime_max = 3652059 * 86400000000 - 1"

definition datetime_add :: "datetime \<Rightarrow> int \<Rightarrow> error + datetime" where
  "datetime_add t delta = (if t + delta > datetime_max \<or> t + delta < 0 then Inl OverflowError else Inr (t + delta))"

text \<open>
  The builder chain of \<^verbatim>\<open>generate_certificate\<close>, up to \<^verbatim>\<open>sign\<close>. The builder
  refuses, with \<^verbatim>\<open>ValueError\<close>, a serial number that is not positive, a
  \<^verbatim>\<open>not_valid_before\<close> or \<^verbatim>\<open>not_valid_after\<close> earlier than 1950-01-01T00:00:00
  (day 711858), and a \<^verbatim>\<open>not_valid_after\<close> earlier than the \<^verbatim>\<open>not_valid_before\<close>
  it already has. It keeps the times as they are given, microseconds included.
\<close>

definition earliest_utc_time :: datetime where
  "earliest_utc_time = 711857 * 86400000000"

definition build_certificate ::
    "crypto \<Rightarrow> string \<Rightarrow> nat \<Rightarrow> datetime \<Rightarrow> datetime \<Rightarrow> error + certificate_builder" where
  "build_certificate lib nm key now expires =
     (if random_serial_number lib = 0 then Inl ValueError
      else if now < earliest_utc_time then Inl ValueError
      else if expires < earliest_utc_time \<or> expires < now then Inl ValueError
      else Inr
        \<lparr>subject_name = nm, issuer_name = nm, cert_public_key = public_key lib key,
         serial_number = random_serial_number lib, not_valid_before = now,
         not_valid_after = expires, basic_constraints_ca = True,
         basic_constraints_path_length = Some 0, basic_constraints_critical = False\<rparr>)"

text \<open>
  \<^verbatim>\<open>.sign(key, hashes.SHA256(), backend)\<close> returns the issued certificate: its content
  and the signature over it. X.509 writes the validity times in whole seconds, so the
  certificate carries the builder's times without their microseconds; the signing itself
  is the library's.
\<close>

definition whole_seconds :: "datetime \<Rightarrow> datetime" where
  "whole_seconds t = t - t mod 1000000"

type_synonym certificate = "certificate_builder \<times> nat"

definition sign_certificate :: "crypto \<Rightarrow> certificate_builder \<Rightarrow> nat \<Rightarrow> error + certificate" where
  "sign_certificate lib builder key =
     (let content = builder\<lparr>not_valid_before := whole_seconds (not_valid_before builder),
                            not_valid_after := whole_seconds (not_valid_after builder)\<rparr>
      in case sign lib content key of
           Inl e \<Rightarrow> Inl e
         | Inr sg \<Rightarrow> Inr (content, sg))"

text \<open>
  \<open>netloc\<close> is \<^verbatim>\<open>urlparse(url).netloc\<close>, or the \<^verbatim>\<open>ValueError\<close> \<^verbatim>\<open>urlparse\<close> raises;
  \<open>now\<close> is what \<^verbatim>\<open>timezone.now()\<close> returns, read as the builder reads it.
\<close>

definition generate_certificate ::
    "(string \<Rightarrow> error + string) \<Rightarrow> crypto \<Rightarrow> datetime \<Rightarrow> IdP \<Rightarrow> idp_table \<Rightarrow>
     (error + unit) \<times> IdP \<times> idp_table" where
  "generate_certificate netloc lib now self db =
     (case netloc (base_url self) of
        Inl e \<Rightarrow> (Inl e, self, db)
      | Inr host \<Rightarrow>
     (case generate_private_key lib of
        Inl e \<Rightarrow> (Inl e, self, db)
      | Inr key \<Rightarrow>
     (let self1 = self\<lparr>private_key := private_bytes lib key\<rparr> in
     (case x509_name lib host of
        Inl e \<Rightarrow> (Inl e, self1, db)
      | Inr nm \<Rightarrow>
     (case datetime_add now (timedelta_days 3650) of
        Inl e \<Rightarrow> (Inl e, self1, db)
      | Inr expires \<Rightarrow>
     (let self2 = self1\<lparr>certificate_expires := Some expires\<rparr> in
     (case build_certificate lib nm key now expires of
        Inl e \<Rightarrow> (Inl e, self2, db)
      | Inr builder \<Rightarrow>
     (case sign_certificate lib builder key of
        Inl e \<Rightarrow> (Inl e, self2, db)
      | Inr cert \<Rightarrow>
     (let self3 = self2\<lparr>x509_certificate := public_bytes lib cert\<rparr>
      in (Inr (), self3, save self3 db))))))))))"

section \<open>Concrete inputs\<close>

text \<open>
  An IdP with no explicit entity ID, whose stored settings text is a metadata import
  that also carries an \<^verbatim>\<open>sp\<close> object, a router that knows the metadata and ACS routes
  only, and a deserialiser that knows this one text.
\<close>

definition example_settings_text :: string where
  \<open>example_settings_text =
     ''{"sp": {"x509cert": "BOGUS", "NameIDFormat": "x", "wantNameId": true}, "idp": {"entityId": "https://idp.example.com"}}''\<close>

definition example_blob :: pydict where
  "example_blob =
     [(''sp'', PDict [(''x509cert'', PStr ''BOGUS''), (''NameIDFormat'', PStr ''x''),
                      (''wantNameId'', PBool True)]),
      (''idp'', PDict [(''entityId'', PStr ''https://idp.example.com'')])]"

definition example_loads :: json_loads where
  "example_loads s = (if s = example_settings_text then Inr (PDict example_blob) else Inl JSONDecodeError)"

definition example_reverse :: reverse where
  "example_reverse nm ps =
     (if nm = ''sp-idp-metadata'' then Some ''/sso/metadata/''
      else if nm = ''sp-idp-acs'' then Some ''/sso/acs/''
      else None)"

definition example_idp :: IdP where
  "example_idp =
     \<lparr>pk = 1, name = ''Example'', url_params = [], base_url = ''https://sp.example.com'',
      entity_id = [], contact_name = ''Admin'', contact_email = ''admin@example.com'',
      x509_certificate = ''CERT'', private_key = ''KEY'', certificate_expires = None,
      metadata_url = [], verify_metadata_cert = True, metadata_xml = ''<EntityDescriptor/>'',
      saml_settings = example_settings_text, last_import = None,
      login_redirect = [], logout_redirect = ''/bye/'', require_attributes = True,
      authn_comparison = ''exact'',
      authn_context =
        PList [PStr ''urn:oasis:names:tc:SAML:2.0:ac:classes:PasswordProtectedTransport'']\<rparr>"

text \<open>
  Attribute mappings of two IdPs: for IdP 1 a flagged mapping of \<^verbatim>\<open>email\<close>, an
  unmapped attribute, a later mapping to the same field and a mapping whose attribute
  the assertion lacks. The second table gives IdP 1 two flagged mappings.
\<close>

definition example_attributes :: attribute_table where
  "example_attributes =
     [\<lparr>attr_pk = 1, idp = 1, saml_attribute = ''email'', mapped_name = ''email'',
       is_nameid = True, always_update = False\<rparr>,
      \<lparr>attr_pk = 2, idp = 1, saml_attribute = ''groups'', mapped_name = [],
       is_nameid = False, always_update = False\<rparr>,
      \<lparr>attr_pk = 3, idp = 1, saml_attribute = ''mail'', mapped_name = ''email'',
       is_nameid = False, always_update = True\<rparr>,
      \<lparr>attr_pk = 4, idp = 1, saml_attribute = ''phone'', mapped_name = ''phone'',
       is_nameid = False, always_update = False\<rparr>,
      \<lparr>attr_pk = 5, idp = 2, saml_attribute = ''uid'', mapped_name = ''username'',
       is_nameid = True, always_update = False\<rparr>]"

definition example_two_flagged :: attribute_table where
  "example_two_flagged =
     [\<lparr>attr_pk = 1, idp = 1, saml_attribute = ''uid'', mapped_name = ''username'',
       is_nameid = True, always_update = False\<rparr>,
      \<lparr>attr_pk = 2, idp = 1, saml_attribute = ''email'', mapped_name = ''email'',
       is_nameid = True, always_update = False\<rparr>]"

definition example_saml :: saml_auth where
  "example_saml =
     \<lparr>get_attribute = map_of [(''email'', [''a@x.com'']), (''mail'', [''b@x.com'']),
                               (''groups'', [''staff'']), (''uid'', [''u1''])],
      saml_get_nameid = PStr ''nameid-of-the-library''\<rparr>"

definition example_saml_no_attributes :: saml_auth where
  "example_saml_no_attributes =
     \<lparr>get_attribute = Map.empty, saml_get_nameid = PStr ''nameid-of-the-library''\<rparr>"

text \<open>
  Collaborators for the administrative operations: a fetch that delivers a truncated
  document from one address and fails elsewhere, a parser and a serialiser that know one
  document, and a cryptography backend with fixed outcomes.
\<close>

definition example_get_metadata :: "string \<Rightarrow> bool \<Rightarrow> error + string" where
  "example_get_metadata url validate_cert =
     (if url = ''https://idp.example.com/metadata'' then Inr ''<EntityDescriptor''
      else Inl (LibraryError ''URLError''))"

definition example_parse :: "string \<Rightarrow> error + pyval" where
  "example_parse xml =
     (if xml = ''<EntityDescriptor/>'' then Inr (PDict [(''idp'', PDict [])])
      else Inl (LibraryError ''XMLSyntaxError''))"

definition example_dumps :: "pyval \<Rightarrow> error + string" where
  \<open>example_dumps v = (if v = PDict [(''idp'', PDict [])] then Inr ''{"idp": {}}'' else Inl TypeError)\<close>

definition example_netloc :: "string \<Rightarrow> error + string" where
  "example_netloc url =
     (if url = ''https://sp.example.com'' then Inr ''sp.example.com'' else Inl ValueError)"

text \<open>A clock reading with a fraction of a second: 2024-01-01T12:00:00.250000.\<close>

definition example_now :: datetime where
  "example_now = 63839707200250000"

definition example_crypto :: crypto where
  "example_crypto =
     \<lparr>generate_private_key = Inr 17, private_bytes = (\<lambda>key. ''PRIVATE KEY''),
      public_key = (\<lambda>key. key + 1), x509_name = Inr, random_serial_number = 4711,
      sign = (\<lambda>content key. Inr 99),
      public_bytes = (\<lambda>(content, sg). ''CERTIFICATE'')\<rparr>"

text \<open>
  What the builder holds for this clock reading and key, and the certificate issued
  from it, with the times in whole seconds.
\<close>

definition example_builder :: certificate_builder where
  "example_builder =
     \<lparr>subject_name = ''sp.example.com'', issuer_name = ''sp.example.com'',
      cert_public_key = 18, serial_number = 4711,
      not_valid_before = 63839707200250000, not_valid_after = 64155067200250000,
      basic_constraints_ca = True, basic_constraints_path_length = Some 0,
      basic_constraints_critical = False\<rparr>"

definition example_certificate :: certificate where
  "example_certificate =
     (\<lparr>subject_name = ''sp.example.com'', issuer_name = ''sp.example.com'',
       cert_public_key = 18, serial_number = 4711,
       not_valid_before = 63839707200000000, not_valid_after = 64155067200000000,
       basic_constraints_ca = True, basic_constraints_path_length = Some 0,
       basic_constraints_critical = False\<rparr>, 99)"

section \<open>Dictionary facts\<close>

lemma map_of_setitem: "map_of (setitem k v d) = (map_of d)(k \<mapsto> v)"
  by (induction d) (auto simp: fun_eq_iff)

lemma map_of_dict_update: "map_of (dict_update d other) = map_of d ++ map_of (rev other)"
  unfolding dict_update_def
proof (induction other arbitrary: d)
  case Nil
  show ?case by simp
next
  case (Cons p other)
  obtain k v where p: "p = (k, v)" by (cases p)
  show ?case
    by (simp add: p Cons.IH map_of_setitem map_add_upd_left fun_eq_iff map_add_def
        split: option.splits)
qed

lemma get_path_cong:
  "map_of d k = map_of d' k \<Longrightarrow> get_path d (k # ks) = get_path d' (k # ks)"
  by (cases ks) simp_all

lemma get_path_Some_key: "get_path d (k # ks) = Some v \<Longrightarrow> map_of d k \<noteq> None"
  by (cases ks) (auto split: option.splits)

lemma sp_settings_keys:
  "map_of (rev (sp_settings reverse self)) k = map_of (sp_settings reverse self) k"
  by (simp add: sp_settings_def)

lemma map_of_settings:
  "map_of (dict_update blob (sp_settings reverse self)) k =
     (case map_of (sp_settings reverse self) k of None \<Rightarrow> map_of blob k | Some v \<Rightarrow> Some v)"
  by (simp add: map_of_dict_update map_add_def sp_settings_keys)

section \<open>The settings overlay\<close>

text \<open>
  C1. Whenever the stored settings text deserialises to an object, \<^verbatim>\<open>settings\<close> returns
  a dictionary whose \<^verbatim>\<open>sp.x509cert\<close> is the IdP's stored certificate, whatever the
  imported object holds there; and every key path that has a value in the SP overlay
  (\<^verbatim>\<open>sp_settings\<close>) has that same value in the result.
\<close>

theorem settings_overlay_wins:
  assumes "loads (saml_settings self) = Inr (PDict blob)"
  shows "\<exists>s. settings loads reverse self = Inr s
           \<and> get_path s [''sp'', ''x509cert''] = Some (PStr (x509_certificate self))
           \<and> (\<forall>p v. get_path (sp_settings reverse self) p = Some v \<longrightarrow> get_path s p = Some v)"
proof -
  let ?ov = "sp_settings reverse self"
  let ?s = "dict_update blob ?ov"
  have wins: "get_path ?s p = Some v" if "get_path ?ov p = Some v" for p v
  proof (cases p)
    case Nil
    with that show ?thesis by simp
  next
    case (Cons k ks)
    with that have "map_of ?ov k \<noteq> None" by (auto dest: get_path_Some_key)
    then have "map_of ?s k = map_of ?ov k" by (auto simp: map_of_settings)
    then have "get_path ?s (k # ks) = get_path ?ov (k # ks)" by (rule get_path_cong)
    with that Cons show ?thesis by simp
  qed
  have "get_path ?ov [''sp'', ''x509cert''] = Some (PStr (x509_certificate self))"
    by (simp add: sp_settings_def)
  then have "get_path ?s [''sp'', ''x509cert''] = Some (PStr (x509_certificate self))"
    by (rule wins)
  moreover have "settings loads reverse self = Inr ?s"
    using assms by (simp add: settings_def)
  ultimately show ?thesis using wins by blast
qed

theorem settings_overlay_wins_witness:
  "get_path example_blob [''sp'', ''x509cert''] = Some (PStr ''BOGUS'')
   \<and> (\<exists>s. settings example_loads example_reverse example_idp = Inr s
          \<and> get_path s [''sp'', ''x509cert''] = Some (PStr ''CERT''))"
proof -
  have "example_loads (saml_settings example_idp) = Inr (PDict example_blob)"
    by (simp add: example_loads_def example_idp_def)
  with settings_overlay_wins [of example_loads example_idp example_blob example_reverse]
  show ?thesis by (auto simp: example_blob_def example_idp_def)
qed

lemma sp_settings_dom:
  "(map_of (sp_settings reverse self) k \<noteq> None) =
     (k \<in> {''strict'', ''sp'', ''security'', ''contactPerson''})"
  by (simp add: sp_settings_def)

text \<open>
  C10. The merge is a replacement of top-level keys, not a deep merge. When the stored
  text deserialises to an object, each of the four keys of the overlay (\<^verbatim>\<open>strict\<close>,
  \<^verbatim>\<open>sp\<close>, \<^verbatim>\<open>security\<close>, \<^verbatim>\<open>contactPerson\<close>) maps in the result to the overlay's whole
  value, so every path below it reads what the overlay has there and nothing of the
  imported object survives under it; every other top-level key, and every path below
  it, reads what the imported object has.
\<close>

theorem settings_top_level_replacement:
  assumes "loads (saml_settings self) = Inr (PDict blob)"
  shows "\<exists>s. settings loads reverse self = Inr s
           \<and> (\<forall>k \<in> {''strict'', ''sp'', ''security'', ''contactPerson''}.
                  map_of s k = map_of (sp_settings reverse self) k
                  \<and> map_of s k \<noteq> None
                  \<and> (\<forall>ks. get_path s (k # ks) = get_path (sp_settings reverse self) (k # ks)))
           \<and> (\<forall>k. k \<notin> {''strict'', ''sp'', ''security'', ''contactPerson''} \<longrightarrow>
                  map_of s k = map_of blob k
                  \<and> (\<forall>ks. get_path s (k # ks) = get_path blob (k # ks)))"
proof -
  let ?ov = "sp_settings reverse self"
  let ?s = "dict_update blob ?ov"
  let ?K = "{''strict'', ''sp'', ''security'', ''contactPerson''}"
  have ret: "settings loads reverse self = Inr ?s"
    using assms by (simp add: settings_def)
  have inside: "map_of ?s k = map_of ?ov k \<and> map_of ?s k \<noteq> None
       \<and> (\<forall>ks. get_path ?s (k # ks) = get_path ?ov (k # ks))" if "k \<in> ?K" for k
  proof -
    from that have "map_of ?ov k \<noteq> None" by (simp only: sp_settings_dom)
    then have eq: "map_of ?s k = map_of ?ov k" and "map_of ?s k \<noteq> None"
      by (auto simp: map_of_settings)
    moreover have "get_path ?s (k # ks) = get_path ?ov (k # ks)" for ks
      using eq by (rule get_path_cong)
    ultimately show ?thesis by simp
  qed
  have outside: "map_of ?s k = map_of blob k
       \<and> (\<forall>ks. get_path ?s (k # ks) = get_path blob (k # ks))" if "k \<notin> ?K" for k
  proof -
    from that have "map_of ?ov k = None" using sp_settings_dom [of reverse self k] by blast
    then have eq: "map_of ?s k = map_of blob k" by (simp add: map_of_settings)
    moreover have "get_path ?s (k # ks) = get_path blob (k # ks)" for ks
      using eq by (rule get_path_cong)
    ultimately show ?thesis by simp
  qed
  have A: "\<forall>k\<in>?K. map_of ?s k = map_of ?ov k \<and> map_of ?s k \<noteq> None
          \<and> (\<forall>ks. get_path ?s (k # ks) = get_path ?ov (k # ks))"
    by (intro ballI) (rule inside)
  have B: "\<forall>k. k \<notin> ?K \<longrightarrow> map_of ?s k = map_of blob k
          \<and> (\<forall>ks. get_path ?s (k # ks) = get_path blob (k # ks))"
    by (intro allI impI) (rule outside)
  from ret A B show ?thesis by (intro exI conjI)
qed

theorem settings_top_level_replacement_witness:
  "get_path example_blob [''sp'', ''wantNameId''] = Some (PBool True)
   \<and> (\<exists>s. settings example_loads example_reverse example_idp = Inr s
          \<and> get_path s [''sp'', ''wantNameId''] = None
          \<and> get_path s [''sp'', ''NameIDFormat'']
              = Some (PStr ''urn:oasis:names:tc:SAML:1.1:nameid-format:unspecified'')
          \<and> get_path s [''idp'', ''entityId''] = Some (PStr ''https://idp.example.com''))"
proof -
  have "example_loads (saml_settings example_idp) = Inr (PDict example_blob)"
    by (simp add: example_loads_def example_idp_def)
  with settings_top_level_replacement
         [of example_loads example_idp example_blob example_reverse]
  obtain s where s: "settings example_loads example_reverse example_idp = Inr s"
    and ins: "\<And>ks. get_path s (''sp'' # ks) = get_path (sp_settings example_reverse example_idp) (''sp'' # ks)"
    and out: "\<And>ks. get_path s (''idp'' # ks) = get_path example_blob (''idp'' # ks)"
    by auto
  have "get_path s [''sp'', ''wantNameId''] = None"
    by (simp only: ins) (simp add: sp_settings_def)
  moreover have "get_path s [''sp'', ''NameIDFormat'']
      = Some (PStr ''urn:oasis:names:tc:SAML:1.1:nameid-format:unspecified'')"
    by (simp only: ins) (simp add: sp_settings_def)
  moreover have "get_path s [''idp'', ''entityId''] = Some (PStr ''https://idp.example.com'')"
    by (simp only: out) (simp add: example_blob_def)
  moreover have "get_path example_blob [''sp'', ''wantNameId''] = Some (PBool True)"
    by (simp add: example_blob_def)
  ultimately show ?thesis using s by blast
qed

section \<open>Entity ID, endpoints and redirects\<close>

text \<open>
  C6. \<^verbatim>\<open>get_entity_id\<close> returns the configured entity ID when it is not the empty
  string, and otherwise the base URL followed by the resolved path of the metadata
  endpoint (\<^verbatim>\<open>/\<close> when the route does not resolve). Given that the router returns
  absolute paths, the result is never empty.
\<close>

theorem get_entity_id_explicit_or_derived:
  assumes "absolute_paths reverse"
  shows "(entity_id self \<noteq> [] \<longrightarrow> get_entity_id reverse self = entity_id self)
       \<and> (entity_id self = [] \<longrightarrow>
            get_entity_id reverse self
              = base_url self @ (case reverse ''sp-idp-metadata'' (url_params self) of
                                   Some path \<Rightarrow> path | None \<Rightarrow> ''/''))
       \<and> get_entity_id reverse self \<noteq> []"
  using assms
  by (auto simp: get_entity_id_def get_absolute_url_def get_url_def absolute_paths_def
           split: option.splits)

theorem get_entity_id_explicit_or_derived_witness:
  "absolute_paths example_reverse
   \<and> get_entity_id example_reverse example_idp = ''https://sp.example.com/sso/metadata/''
   \<and> get_entity_id example_reverse (example_idp\<lparr>entity_id := ''urn:sp''\<rparr>) = ''urn:sp''
   \<and> get_entity_id example_reverse example_idp \<noteq> []"
proof -
  have a: "absolute_paths example_reverse"
    by (simp add: absolute_paths_def example_reverse_def)
  from get_entity_id_explicit_or_derived [OF a, of example_idp]
       get_entity_id_explicit_or_derived [OF a, of "example_idp\<lparr>entity_id := ''urn:sp''\<rparr>"]
  show ?thesis using a by (simp add: example_idp_def example_reverse_def)
qed

text \<open>
  C9. Resolving a named endpoint with the IdP's URL parameters gives the resolved path
  when the route resolves and \<^verbatim>\<open>/\<close>, not an exception, when it does not
  (\<^verbatim>\<open>NoReverseMatch\<close>); each of the seven endpoint accessors is this resolution at its
  route name, the ACS and SLO ones behind the base URL.
\<close>

theorem get_url_soft_fail:
  "(\<forall>path. reverse nm (url_params self) = Some path \<longrightarrow> get_url reverse self nm ''/'' = path)
   \<and> (reverse nm (url_params self) = None \<longrightarrow> get_url reverse self nm ''/'' = ''/'')
   \<and> get_acs reverse self = base_url self @ get_url reverse self ''sp-idp-acs'' ''/''
   \<and> get_slo reverse self = base_url self @ get_url reverse self ''sp-idp-slo'' ''/''
   \<and> get_absolute_url reverse self = get_url reverse self ''sp-idp-metadata'' ''/''
   \<and> get_login_url reverse self = get_url reverse self ''sp-idp-login'' ''/''
   \<and> get_logout_url reverse self = get_url reverse self ''sp-idp-logout'' ''/''
   \<and> get_test_url reverse self = get_url reverse self ''sp-idp-test'' ''/''
   \<and> get_verify_url reverse self = get_url reverse self ''sp-idp-verify'' ''/''"
  by (simp add: get_url_def get_acs_def get_slo_def get_absolute_url_def get_login_url_def
      get_logout_url_def get_test_url_def get_verify_url_def)

theorem get_url_soft_fail_witness:
  "example_reverse ''sp-idp-acs'' (url_params example_idp) = Some ''/sso/acs/''
   \<and> get_url example_reverse example_idp ''sp-idp-acs'' ''/'' = ''/sso/acs/''
   \<and> example_reverse ''sp-idp-slo'' (url_params example_idp) = None
   \<and> get_url example_reverse example_idp ''sp-idp-slo'' ''/'' = ''/''"
  using get_url_soft_fail [of example_reverse "''sp-idp-acs''" example_idp]
        get_url_soft_fail [of example_reverse "''sp-idp-slo''" example_idp]
  by (simp add: example_reverse_def)

text \<open>
  C8. The target after login, and after logout, is the caller's redirect when it is
  populated (truthy), else the IdP's configured redirect when that is not empty, else the
  host application's global default, whatever the combination of populated values.
\<close>

theorem redirect_precedence:
  "get_login_redirect LOGIN_REDIRECT_URL self redir =
     (if truthy redir then redir
      else if login_redirect self \<noteq> [] then PStr (login_redirect self)
      else LOGIN_REDIRECT_URL)
   \<and> get_logout_redirect LOGOUT_REDIRECT_URL self redir =
     (if truthy redir then redir
      else if logout_redirect self \<noteq> [] then PStr (logout_redirect self)
      else LOGOUT_REDIRECT_URL)"
  by (simp add: get_login_redirect_def get_logout_redirect_def py_or_def)

theorem redirect_precedence_witness:
  "get_login_redirect (PStr ''/accounts/profile/'') example_idp (PStr ''/next/'') = PStr ''/next/''
   \<and> get_login_redirect (PStr ''/accounts/profile/'') example_idp PNone = PStr ''/accounts/profile/''
   \<and> get_logout_redirect PNone example_idp (PStr []) = PStr ''/bye/''
   \<and> get_logout_redirect PNone (example_idp\<lparr>logout_redirect := []\<rparr>) PNone = PNone"
  using redirect_precedence [of "PStr ''/accounts/profile/''" example_idp "PStr ''/next/''" PNone]
        redirect_precedence [of "PStr ''/accounts/profile/''" example_idp PNone PNone]
        redirect_precedence [of PNone example_idp "PStr []" PNone]
        redirect_precedence [of PNone "example_idp\<lparr>logout_redirect := []\<rparr>" PNone PNone]
  by (simp add: example_idp_def)

section \<open>Attribute mapping and NameID\<close>

lemma keys_setitem: "set (map fst (setitem k v d)) = insert k (set (map fst d))"
  using dom_map_of_conv_image_fst [of "setitem k v d"] dom_map_of_conv_image_fst [of d]
  by (simp add: map_of_setitem)

lemma map_of_mapping_loop:
  "map_of (fold (\<lambda>attr attrs.
             case get_attribute saml (saml_attribute attr) of
               None \<Rightarrow> attrs
             | Some val \<Rightarrow> setitem (mapped_name attr) val attrs) rows acc) k =
     (case filter (\<lambda>a. mapped_name a = k \<and> get_attribute saml (saml_attribute a) \<noteq> None) rows of
        [] \<Rightarrow> map_of acc k
      | a # as \<Rightarrow> get_attribute saml (saml_attribute (last (a # as))))"
proof (induction rows arbitrary: acc)
  case Nil
  show ?case by simp
next
  case (Cons r rows)
  show ?case
    by (auto simp: Cons.IH map_of_setitem split: option.splits list.splits)
qed

lemma keys_mapping_loop:
  "fst ` set (fold (\<lambda>attr attrs.
             case get_attribute saml (saml_attribute attr) of
               None \<Rightarrow> attrs
             | Some val \<Rightarrow> setitem (mapped_name attr) val attrs) rows acc)
     \<subseteq> fst ` set acc \<union> mapped_name ` set rows"
proof (induction rows arbitrary: acc)
  case Nil
  show ?case by simp
next
  case (Cons r rows)
  show ?case
    using Cons.IH [of "case get_attribute saml (saml_attribute r) of
               None \<Rightarrow> acc
             | Some val \<Rightarrow> setitem (mapped_name r) val acc"] keys_setitem [of "mapped_name r" _ acc]
    by (auto split: option.splits)
qed

lemma distinct_setitem: "distinct (map fst d) \<Longrightarrow> distinct (map fst (setitem k v d))"
proof (induction d)
  case Nil
  show ?case by simp
next
  case (Cons p d)
  with keys_setitem [of k v d] show ?case by (cases p) auto
qed

lemma distinct_mapping_loop:
  "distinct (map fst acc) \<Longrightarrow>
   distinct (map fst (fold (\<lambda>attr attrs.
             case get_attribute saml (saml_attribute attr) of
               None \<Rightarrow> attrs
             | Some val \<Rightarrow> setitem (mapped_name attr) val attrs) rows acc))"
  by (induction rows arbitrary: acc) (auto simp: distinct_setitem split: option.splits)

text \<open>
  C7. The dictionary \<^verbatim>\<open>mapped_attributes\<close> returns has no empty key and no key twice,
  and the value of a field name is that of the last mapping, in the order of the loop,
  among the IdP's mappings with this non-empty mapped name whose SAML attribute the
  assertion has: a mapping with an empty mapped name contributes nothing, a later mapping
  to the same name overwrites an earlier one, and a mapping whose attribute is absent
  (\<^verbatim>\<open>get_attribute\<close> returns \<^verbatim>\<open>None\<close>) is skipped; the function is total, so nothing
  raises.
\<close>

theorem mapped_attributes_overrides:
  "[] \<notin> fst ` set (mapped_attributes table self saml)
   \<and> distinct (map fst (mapped_attributes table self saml))
   \<and> map_of (mapped_attributes table self saml) k =
       (case filter (\<lambda>a. mapped_name a = k \<and> mapped_name a \<noteq> []
                          \<and> get_attribute saml (saml_attribute a) \<noteq> None)
                    (attributes table self) of
          [] \<Rightarrow> None
        | a # as \<Rightarrow> get_attribute saml (saml_attribute (last (a # as))))"
proof -
  let ?rows = "filter (\<lambda>a. mapped_name a \<noteq> []) (attributes table self)"
  have "fst ` set (mapped_attributes table self saml) \<subseteq> mapped_name ` set ?rows"
    unfolding mapped_attributes_def using keys_mapping_loop [of saml ?rows "[]"] by simp
  then have "[] \<notin> fst ` set (mapped_attributes table self saml)" by auto
  moreover have "distinct (map fst (mapped_attributes table self saml))"
    unfolding mapped_attributes_def by (rule distinct_mapping_loop) simp
  moreover have "filter (\<lambda>a. mapped_name a = k \<and> get_attribute saml (saml_attribute a) \<noteq> None) ?rows
      = filter (\<lambda>a. mapped_name a = k \<and> mapped_name a \<noteq> []
                          \<and> get_attribute saml (saml_attribute a) \<noteq> None) (attributes table self)"
    by (simp add: conj_commute conj_left_commute cong: conj_cong)
  then have "map_of (mapped_attributes table self saml) k =
       (case filter (\<lambda>a. mapped_name a = k \<and> mapped_name a \<noteq> []
                          \<and> get_attribute saml (saml_attribute a) \<noteq> None)
                    (attributes table self) of
          [] \<Rightarrow> None
        | a # as \<Rightarrow> get_attribute saml (saml_attribute (last (a # as))))"
    unfolding mapped_attributes_def map_of_mapping_loop by (simp split: list.splits)
  ultimately show ?thesis by simp
qed

theorem mapped_attributes_overrides_witness:
  "map_of (mapped_attributes example_attributes example_idp example_saml) ''email''
     = Some [''b@x.com'']
   \<and> map_of (mapped_attributes example_attributes example_idp example_saml) ''phone'' = None
   \<and> [] \<notin> fst ` set (mapped_attributes example_attributes example_idp example_saml)"
proof -
  let ?present = "\<lambda>k a. mapped_name a = k \<and> mapped_name a \<noteq> []
                          \<and> get_attribute example_saml (saml_attribute a) \<noteq> None"
  have email: "filter (?present ''email'') (attributes example_attributes example_idp)
      = [\<lparr>attr_pk = 1, idp = 1, saml_attribute = ''email'', mapped_name = ''email'',
           is_nameid = True, always_update = False\<rparr>,
         \<lparr>attr_pk = 3, idp = 1, saml_attribute = ''mail'', mapped_name = ''email'',
           is_nameid = False, always_update = True\<rparr>]"
    by (simp add: attributes_def example_attributes_def example_idp_def example_saml_def)
  have phone: "filter (?present ''phone'') (attributes example_attributes example_idp) = []"
    by (simp add: attributes_def example_attributes_def example_idp_def example_saml_def)
  have "map_of (mapped_attributes example_attributes example_idp example_saml) ''email''
     = Some [''b@x.com'']"
    using mapped_attributes_overrides [of example_attributes example_idp example_saml "''email''"]
    by (simp only: email) (simp add: example_saml_def)
  moreover have "map_of (mapped_attributes example_attributes example_idp example_saml) ''phone'' = None"
    using mapped_attributes_overrides [of example_attributes example_idp example_saml "''phone''"]
    by (simp only: phone) simp
  moreover have "[] \<notin> fst ` set (mapped_attributes example_attributes example_idp example_saml)"
    using mapped_attributes_overrides [of example_attributes example_idp example_saml "''phone''"]
    by (rule conjunct1)
  ultimately show ?thesis by (intro conjI)
qed

lemma qs_first_mem: "qs_first rows = Some b \<Longrightarrow> b \<in> set rows"
  by (induction rows arbitrary: b) (auto split: option.splits if_splits)

lemma qs_first_None: "qs_first rows = None \<longleftrightarrow> rows = []"
  by (cases rows) (auto split: option.splits)

lemma qs_first_least:
  "a \<in> set rows \<Longrightarrow> \<forall>b\<in>set rows. b = a \<or> attr_pk a < attr_pk b \<Longrightarrow> qs_first rows = Some a"
proof (induction rows)
  case Nil
  then show ?case by simp
next
  case (Cons r rows)
  show ?case
  proof (cases "qs_first rows")
    case None
    then have "rows = []" by (simp add: qs_first_None)
    with Cons.prems show ?thesis by simp
  next
    case (Some b)
    then have b: "b \<in> set rows" by (rule qs_first_mem)
    show ?thesis
    proof (cases "a \<in> set rows")
      case True
      with Cons have "qs_first rows = Some a" by simp
      moreover from Cons.prems have "r = a \<or> attr_pk a < attr_pk r" by simp
      ultimately show ?thesis by auto
    next
      case False
      with Cons.prems have "r = a" by simp
      moreover from b False Cons.prems have "attr_pk a < attr_pk b" by auto
      ultimately show ?thesis using Some by simp
    qed
  qed
qed

text \<open>
  C2, as amended. Among the IdP's mappings flagged \<^verbatim>\<open>is_nameid\<close>, \<^verbatim>\<open>get_nameid\<close> uses
  the one with the least primary key (the only one, when there is one). When the
  assertion has a non-empty list of values for that mapping's attribute, the result is
  the first value; when the assertion lacks the attribute, the call ends with Python's
  \<^verbatim>\<open>TypeError\<close>; when the IdP has no flagged mapping, the result is the NameID the
  protocol library computed, unchanged.
\<close>

theorem get_nameid_resolution:
  "(let flagged = filter is_nameid (attributes table self) in
    (\<forall>a v vs. a \<in> set flagged \<and> (\<forall>b\<in>set flagged. b = a \<or> attr_pk a < attr_pk b)
        \<and> get_attribute saml (saml_attribute a) = Some (v # vs)
        \<longrightarrow> get_nameid table self saml = Inr (PStr v))
    \<and> (\<forall>a. a \<in> set flagged \<and> (\<forall>b\<in>set flagged. b = a \<or> attr_pk a < attr_pk b)
        \<and> get_attribute saml (saml_attribute a) = None
        \<longrightarrow> get_nameid table self saml = Inl TypeError)
    \<and> (flagged = [] \<longrightarrow> get_nameid table self saml = Inr (saml_get_nameid saml)))"
proof -
  let ?flagged = "filter is_nameid (attributes table self)"
  have first: "qs_first ?flagged = Some a"
    if "a \<in> set ?flagged" "\<forall>b\<in>set ?flagged. b = a \<or> attr_pk a < attr_pk b" for a
    using that by (rule qs_first_least)
  have val: "get_nameid table self saml = Inr (PStr v)"
    if "a \<in> set ?flagged" "\<forall>b\<in>set ?flagged. b = a \<or> attr_pk a < attr_pk b"
      "get_attribute saml (saml_attribute a) = Some (v # vs)" for a v vs
    using first [OF that(1,2)] that(3) by (simp add: get_nameid_def)
  have absent: "get_nameid table self saml = Inl TypeError"
    if "a \<in> set ?flagged" "\<forall>b\<in>set ?flagged. b = a \<or> attr_pk a < attr_pk b"
      "get_attribute saml (saml_attribute a) = None" for a
    using first [OF that(1,2)] that(3) by (simp add: get_nameid_def)
  have none: "get_nameid table self saml = Inr (saml_get_nameid saml)" if "?flagged = []"
    using that by (simp add: get_nameid_def)
  show ?thesis
    unfolding Let_def
  proof (intro conjI allI impI)
    fix a v vs
    assume "a \<in> set ?flagged \<and> (\<forall>b\<in>set ?flagged. b = a \<or> attr_pk a < attr_pk b)
        \<and> get_attribute saml (saml_attribute a) = Some (v # vs)"
    then show "get_nameid table self saml = Inr (PStr v)" using val by blast
  next
    fix a
    assume "a \<in> set ?flagged \<and> (\<forall>b\<in>set ?flagged. b = a \<or> attr_pk a < attr_pk b)
        \<and> get_attribute saml (saml_attribute a) = None"
    then show "get_nameid table self saml = Inl TypeError" using absent by blast
  next
    assume "?flagged = []"
    then show "get_nameid table self saml = Inr (saml_get_nameid saml)" by (rule none)
  qed
qed

theorem get_nameid_resolution_witness:
  "get_nameid example_attributes example_idp example_saml = Inr (PStr ''a@x.com'')
   \<and> get_nameid example_attributes (example_idp\<lparr>pk := 3\<rparr>) example_saml
       = Inr (PStr ''nameid-of-the-library'')
   \<and> get_nameid example_attributes example_idp example_saml_no_attributes = Inl TypeError"
proof -
  let ?a = "\<lparr>attr_pk = 1, idp = 1, saml_attribute = ''email'', mapped_name = ''email'',
             is_nameid = True, always_update = False\<rparr>"
  have flagged: "filter is_nameid (attributes example_attributes example_idp) = [?a]"
    by (simp add: attributes_def example_attributes_def example_idp_def)
  have none: "filter is_nameid (attributes example_attributes (example_idp\<lparr>pk := 3\<rparr>)) = []"
    by (simp add: attributes_def example_attributes_def example_idp_def)
  have "get_nameid example_attributes example_idp example_saml = Inr (PStr ''a@x.com'')"
    using get_nameid_resolution [of example_attributes example_idp example_saml]
    by (simp add: flagged Let_def example_saml_def)
  moreover have "get_nameid example_attributes (example_idp\<lparr>pk := 3\<rparr>) example_saml
       = Inr (PStr ''nameid-of-the-library'')"
    using get_nameid_resolution [of example_attributes "example_idp\<lparr>pk := 3\<rparr>" example_saml]
    by (simp add: none Let_def example_saml_def)
  moreover have "get_nameid example_attributes example_idp example_saml_no_attributes = Inl TypeError"
    using get_nameid_resolution [of example_attributes example_idp example_saml_no_attributes]
    by (simp add: flagged Let_def example_saml_no_attributes_def)
  ultimately show ?thesis by simp
qed

text \<open>
  C2 as stated fails twice. An IdP with a flagged mapping of \<^verbatim>\<open>email\<close> and an earlier
  flagged mapping of \<^verbatim>\<open>uid\<close> gets the value of \<^verbatim>\<open>uid\<close>, although the assertion has
  \<^verbatim>\<open>email = ["a@x.com"]\<close>; and an absent attribute ends in \<^verbatim>\<open>TypeError\<close>, not in a
  \<^verbatim>\<open>MissingNameIdAttributeError\<close>.
\<close>

theorem get_nameid_counterexample:
  "map saml_attribute (filter is_nameid (attributes example_two_flagged example_idp))
     = [''uid'', ''email'']
   \<and> get_attribute example_saml ''email'' = Some [''a@x.com'']
   \<and> get_nameid example_two_flagged example_idp example_saml = Inr (PStr ''u1'')
   \<and> get_nameid example_attributes example_idp example_saml_no_attributes = Inl TypeError
   \<and> get_nameid example_attributes example_idp example_saml_no_attributes
       \<noteq> Inl MissingNameIdAttributeError"
  by (simp add: get_nameid_def attributes_def example_two_flagged_def example_attributes_def
      example_idp_def example_saml_def example_saml_no_attributes_def)

subsection \<open>How many mappings can be flagged\<close>

lemma save_attribute_invariant:
  assumes pks: "distinct (map attr_pk t)"
    and keys: "distinct (map (\<lambda>a. (idp a, saml_attribute a)) t)"
    and saved: "save_attribute a t = Inr t'"
  shows "distinct (map attr_pk t') \<and> distinct (map (\<lambda>a. (idp a, saml_attribute a)) t')"
proof -
  from saved have ok: "unique_together_ok a t"
    by (auto simp: save_attribute_def split: if_splits)
  then have other: "\<And>b. b \<in> set t \<Longrightarrow> attr_pk b \<noteq> attr_pk a \<Longrightarrow>
      (idp b, saml_attribute b) \<noteq> (idp a, saml_attribute a)"
    by (auto simp: unique_together_ok_def list_all_iff)
  show ?thesis
  proof (cases "attr_pk a \<in> set (map attr_pk t)")
    case False
    with saved ok have t': "t' = t @ [a]" by (simp add: save_attribute_def)
    have "(idp a, saml_attribute a) \<notin> set (map (\<lambda>a. (idp a, saml_attribute a)) t)"
    proof
      assume "(idp a, saml_attribute a) \<in> set (map (\<lambda>a. (idp a, saml_attribute a)) t)"
      then obtain b where b: "b \<in> set t"
        and same: "(idp b, saml_attribute b) = (idp a, saml_attribute a)" by auto
      from b have "attr_pk b \<in> set (map attr_pk t)" by simp
      with False have "attr_pk b \<noteq> attr_pk a" by metis
      with other [OF b] same show False by simp
    qed
    with False pks keys show ?thesis by (simp add: t')
  next
    case True
    let ?h = "\<lambda>b. if attr_pk b = attr_pk a then a else b"
    from True saved ok have t': "t' = map ?h t" by (simp add: save_attribute_def)
    have A: "map attr_pk (map ?h t) = map attr_pk t" by (induction t) auto
    have B: "distinct (map (\<lambda>a. (idp a, saml_attribute a)) (map ?h t))"
    proof -
      from keys have d: "distinct t" and ik: "inj_on (\<lambda>a. (idp a, saml_attribute a)) (set t)"
        by (simp_all add: distinct_map)
      from pks have ip: "inj_on attr_pk (set t)" by (simp add: distinct_map)
      have "inj_on ((\<lambda>a. (idp a, saml_attribute a)) \<circ> ?h) (set t)"
      proof (rule inj_onI)
        fix b c
        assume b: "b \<in> set t" and c: "c \<in> set t"
          and eq: "((\<lambda>a. (idp a, saml_attribute a)) \<circ> ?h) b = ((\<lambda>a. (idp a, saml_attribute a)) \<circ> ?h) c"
        show "b = c"
        proof (cases "attr_pk b = attr_pk a")
          case True
          note pb = this
          show ?thesis
          proof (cases "attr_pk c = attr_pk a")
            case True
            with pb have "attr_pk b = attr_pk c" by simp
            then show ?thesis by (rule inj_onD [OF ip _ b c])
          next
            case False
            with pb eq other [OF c] show ?thesis by auto
          qed
        next
          case False
          note pb = this
          show ?thesis
          proof (cases "attr_pk c = attr_pk a")
            case True
            with pb eq other [OF b] show ?thesis by auto
          next
            case False
            with pb eq have "(idp b, saml_attribute b) = (idp c, saml_attribute c)" by simp
            then show ?thesis by (rule inj_onD [OF ik _ b c])
          qed
        qed
      qed
      with d show ?thesis by (simp add: distinct_map)
    qed
    from pks B show ?thesis unfolding t' A by (rule conjI)
  qed
qed

lemma reachable_invariant:
  "reachable t \<Longrightarrow>
   distinct (map attr_pk t) \<and> distinct (map (\<lambda>a. (idp a, saml_attribute a)) t)"
proof (induction rule: reachable.induct)
  case empty
  show ?case by simp
next
  case (create table a table')
  then show ?case
    using save_attribute_invariant [of table "a\<lparr>attr_pk := next_pk table\<rparr>" table']
    by (simp add: create_attribute_def)
next
  case (edit table a table')
  then show ?case
    using save_attribute_invariant [of table a table'] by simp
next
  case (delete table k)
  then show ?case by (simp add: delete_attribute_def distinct_map_filter)
qed

lemma reachable_example_two_flagged: "reachable example_two_flagged"
proof -
  let ?r1 = "\<lparr>attr_pk = 0, idp = 1, saml_attribute = ''uid'', mapped_name = ''username'',
       is_nameid = True, always_update = False\<rparr>"
  let ?r2 = "\<lparr>attr_pk = 0, idp = 1, saml_attribute = ''email'', mapped_name = ''email'',
       is_nameid = True, always_update = False\<rparr>"
  have "create_attribute ?r1 [] = Inr [?r1\<lparr>attr_pk := 1\<rparr>]"
    by (simp add: create_attribute_def save_attribute_def unique_together_ok_def next_pk_def)
  with reachable.empty have "reachable [?r1\<lparr>attr_pk := 1\<rparr>]" by (rule reachable.create)
  moreover have "create_attribute ?r2 [?r1\<lparr>attr_pk := 1\<rparr>] = Inr example_two_flagged"
    by (simp add: create_attribute_def save_attribute_def unique_together_ok_def next_pk_def
        example_two_flagged_def)
  ultimately show ?thesis by (rule reachable.create)
qed

text \<open>
  C3, as amended. In every table reachable by creating, editing and deleting mappings,
  the mappings of an IdP have pairwise different SAML attribute names, and so have its
  mappings flagged \<^verbatim>\<open>is_nameid\<close>; this is all that bounds their number.
\<close>

theorem reachable_unique_attribute:
  assumes "reachable table"
  shows "distinct (map saml_attribute (attributes table self))
       \<and> distinct (map saml_attribute (filter is_nameid (attributes table self)))"
proof -
  from assms have "distinct (map (\<lambda>a. (idp a, saml_attribute a)) table)"
    by (simp add: reachable_invariant)
  then have "distinct (map (\<lambda>a. (idp a, saml_attribute a)) (attributes table self))"
    unfolding attributes_def by (rule distinct_map_filter)
  then have "distinct (map saml_attribute (attributes table self))"
    by (auto simp: distinct_map inj_on_def attributes_def)
  then show ?thesis by (simp add: distinct_map_filter)
qed

theorem reachable_unique_attribute_witness:
  "reachable example_two_flagged
   \<and> distinct (map saml_attribute (attributes example_two_flagged example_idp))"
  using reachable_unique_attribute [OF reachable_example_two_flagged, of example_idp]
    reachable_example_two_flagged by simp

text \<open>
  C3 as stated fails: creating two flagged mappings of different attributes for one IdP
  succeeds, and the IdP then has two mappings flagged as NameID source.
\<close>

theorem single_nameid_counterexample:
  "reachable example_two_flagged
   \<and> length (filter is_nameid (attributes example_two_flagged example_idp)) = 2"
  using reachable_example_two_flagged
  by (simp add: attributes_def example_two_flagged_def example_idp_def)

section \<open>Metadata import and certificate generation\<close>

text \<open>
  C4. Whenever \<^verbatim>\<open>import_metadata\<close> ends with an exception, the table of stored IdP
  rows is the one it started with, so the stored \<^verbatim>\<open>metadata_xml\<close>,
  \<^verbatim>\<open>saml_settings\<close> and \<^verbatim>\<open>last_import\<close> are unchanged. A failing fetch ends the call
  with the fetch's exception, and a failing parse with the parser's; after a fetch that
  succeeded, the instance in memory has the fetched document, the stored row does not.
\<close>

theorem import_metadata_failure_keeps_stored_state:
  "(\<forall>e. fst (import_metadata get_metadata parse dumps now self db) = Inl e \<longrightarrow>
        snd (snd (import_metadata get_metadata parse dumps now self db)) = db)
   \<and> (\<forall>e. metadata_url self \<noteq> []
          \<and> get_metadata (metadata_url self) (verify_metadata_cert self) = Inl e \<longrightarrow>
        import_metadata get_metadata parse dumps now self db = (Inl e, self, db))
   \<and> (\<forall>e. metadata_url self = [] \<and> parse (metadata_xml self) = Inl e \<longrightarrow>
        import_metadata get_metadata parse dumps now self db = (Inl e, self, db))
   \<and> (\<forall>e xml. metadata_url self \<noteq> []
          \<and> get_metadata (metadata_url self) (verify_metadata_cert self) = Inr xml
          \<and> parse xml = Inl e \<longrightarrow>
        import_metadata get_metadata parse dumps now self db
          = (Inl e, self\<lparr>metadata_xml := xml\<rparr>, db))"
proof (intro conjI allI impI)
  fix e
  assume "fst (import_metadata get_metadata parse dumps now self db) = Inl e"
  then show "snd (snd (import_metadata get_metadata parse dumps now self db)) = db"
    by (auto simp: import_metadata_def Let_def split: if_splits sum.splits)
next
  fix e
  assume "metadata_url self \<noteq> []
          \<and> get_metadata (metadata_url self) (verify_metadata_cert self) = Inl e"
  then show "import_metadata get_metadata parse dumps now self db = (Inl e, self, db)"
    by (simp add: import_metadata_def)
next
  fix e
  assume "metadata_url self = [] \<and> parse (metadata_xml self) = Inl e"
  then show "import_metadata get_metadata parse dumps now self db = (Inl e, self, db)"
    by (simp add: import_metadata_def)
next
  fix e xml
  assume "metadata_url self \<noteq> []
          \<and> get_metadata (metadata_url self) (verify_metadata_cert self) = Inr xml
          \<and> parse xml = Inl e"
  then show "import_metadata get_metadata parse dumps now self db
          = (Inl e, self\<lparr>metadata_xml := xml\<rparr>, db)"
    by (simp add: import_metadata_def)
qed


theorem import_metadata_failure_keeps_stored_state_witness:
  "import_metadata example_get_metadata example_parse example_dumps 1000
      (example_idp\<lparr>metadata_url := ''https://idp.example.com/metadata''\<rparr>)
      [1 \<mapsto> example_idp]
    = (Inl (LibraryError ''XMLSyntaxError''),
       example_idp\<lparr>metadata_url := ''https://idp.example.com/metadata'',
                    metadata_xml := ''<EntityDescriptor''\<rparr>,
       [1 \<mapsto> example_idp])
   \<and> import_metadata example_get_metadata example_parse example_dumps 1000
      (example_idp\<lparr>metadata_url := ''https://down.example.com/''\<rparr>)
      [1 \<mapsto> example_idp]
    = (Inl (LibraryError ''URLError''),
       example_idp\<lparr>metadata_url := ''https://down.example.com/''\<rparr>,
       [1 \<mapsto> example_idp])"
proof -
  let ?a = "example_idp\<lparr>metadata_url := ''https://idp.example.com/metadata''\<rparr>"
  let ?b = "example_idp\<lparr>metadata_url := ''https://down.example.com/''\<rparr>"
  have a: "metadata_url ?a \<noteq> []
      \<and> example_get_metadata (metadata_url ?a) (verify_metadata_cert ?a) = Inr ''<EntityDescriptor''
      \<and> example_parse ''<EntityDescriptor'' = Inl (LibraryError ''XMLSyntaxError'')"
    by (simp add: example_get_metadata_def example_parse_def)
  have b: "metadata_url ?b \<noteq> []
      \<and> example_get_metadata (metadata_url ?b) (verify_metadata_cert ?b) = Inl (LibraryError ''URLError'')"
    by (simp add: example_get_metadata_def)
  have "import_metadata example_get_metadata example_parse example_dumps 1000 ?a [1 \<mapsto> example_idp]
      = (Inl (LibraryError ''XMLSyntaxError''), ?a\<lparr>metadata_xml := ''<EntityDescriptor''\<rparr>,
         [1 \<mapsto> example_idp])"
    using import_metadata_failure_keeps_stored_state
            [of example_get_metadata example_parse example_dumps 1000 ?a "[1 \<mapsto> example_idp]"] a
    by blast
  moreover have "import_metadata example_get_metadata example_parse example_dumps 1000 ?b [1 \<mapsto> example_idp]
      = (Inl (LibraryError ''URLError''), ?b, [1 \<mapsto> example_idp])"
    using import_metadata_failure_keeps_stored_state
            [of example_get_metadata example_parse example_dumps 1000 ?b "[1 \<mapsto> example_idp]"] b
    by blast
  ultimately show ?thesis by (intro conjI)
qed

lemma whole_seconds_add_days:
  "whole_seconds (t + 3650 * 86400000000) = whole_seconds t + 3650 * 86400000000"
proof -
  have "(3650::int) * 86400000000 = 1000000 * 315360000" by simp
  then have "(t + 3650 * 86400000000) mod 1000000 = t mod 1000000"
    using mod_mult_self2 [of t 1000000 315360000] by simp
  then show ?thesis by (simp add: whole_seconds_def)
qed

lemma generate_certificate_failure:
  "fst (generate_certificate netloc lib now self db) = Inl e \<Longrightarrow>
   snd (snd (generate_certificate netloc lib now self db)) = db"
  by (auto simp: generate_certificate_def Let_def split: sum.splits)

lemma generate_certificate_success:
  assumes "fst (generate_certificate netloc lib now self db) = Inr u"
  shows "\<exists>host key nm builder cert.
           netloc (base_url self) = Inr host \<and> generate_private_key lib = Inr key
           \<and> x509_name lib host = Inr nm
           \<and> datetime_add now (timedelta_days 3650) = Inr (now + 3650 * 86400000000)
           \<and> build_certificate lib nm key now (now + 3650 * 86400000000) = Inr builder
           \<and> sign_certificate lib builder key = Inr cert
           \<and> generate_certificate netloc lib now self db =
               (Inr (),
                self\<lparr>private_key := private_bytes lib key,
                     certificate_expires := Some (now + 3650 * 86400000000),
                     x509_certificate := public_bytes lib cert\<rparr>,
                save (self\<lparr>private_key := private_bytes lib key,
                     certificate_expires := Some (now + 3650 * 86400000000),
                     x509_certificate := public_bytes lib cert\<rparr>) db)"
proof -
  from assms obtain host where host: "netloc (base_url self) = Inr host"
    by (cases "netloc (base_url self)") (simp_all add: generate_certificate_def)
  from assms host obtain key where key: "generate_private_key lib = Inr key"
    by (cases "generate_private_key lib") (simp_all add: generate_certificate_def)
  from assms host key obtain nm where nm: "x509_name lib host = Inr nm"
    by (cases "x509_name lib host") (simp_all add: generate_certificate_def Let_def)
  from assms host key nm obtain expires
    where expires: "datetime_add now (timedelta_days 3650) = Inr expires"
    by (cases "datetime_add now (timedelta_days 3650)")
       (simp_all add: generate_certificate_def Let_def)
  then have ex: "expires = now + 3650 * 86400000000"
    by (simp add: datetime_add_def timedelta_days_def split: if_splits)
  from assms host key nm expires obtain builder
    where builder: "build_certificate lib nm key now expires = Inr builder"
    by (cases "build_certificate lib nm key now expires")
       (simp_all add: generate_certificate_def Let_def)
  from assms host key nm expires builder obtain cert
    where cert: "sign_certificate lib builder key = Inr cert"
    by (cases "sign_certificate lib builder key")
       (simp_all add: generate_certificate_def Let_def)
  from host key nm expires builder cert
  have "generate_certificate netloc lib now self db =
               (Inr (),
                self\<lparr>private_key := private_bytes lib key,
                     certificate_expires := Some expires,
                     x509_certificate := public_bytes lib cert\<rparr>,
                save (self\<lparr>private_key := private_bytes lib key,
                     certificate_expires := Some expires,
                     x509_certificate := public_bytes lib cert\<rparr>) db)"
    by (simp add: generate_certificate_def Let_def)
  with host key nm expires builder cert show ?thesis unfolding ex by blast
qed

lemma issued_certificate_window:
  assumes b: "build_certificate lib nm key now (now + 3650 * 86400000000) = Inr builder"
    and c: "sign_certificate lib builder key = Inr cert"
  shows "not_valid_before (fst cert) = now - now mod 1000000"
    and "not_valid_after (fst cert) = now - now mod 1000000 + 3650 * 86400000000"
    and "cert_public_key (fst cert) = public_key lib key"
    and "earliest_utc_time \<le> now"
proof -
  from b have builder: "builder =
        \<lparr>subject_name = nm, issuer_name = nm, cert_public_key = public_key lib key,
         serial_number = random_serial_number lib, not_valid_before = now,
         not_valid_after = now + 3650 * 86400000000, basic_constraints_ca = True,
         basic_constraints_path_length = Some 0, basic_constraints_critical = False\<rparr>"
    and early: "earliest_utc_time \<le> now"
    by (auto simp: build_certificate_def split: if_splits)
  from c have cert: "fst cert =
      builder\<lparr>not_valid_before := whole_seconds (not_valid_before builder),
              not_valid_after := whole_seconds (not_valid_after builder)\<rparr>"
    by (auto simp: sign_certificate_def Let_def split: sum.splits)
  show "not_valid_before (fst cert) = now - now mod 1000000"
    by (simp add: cert builder whole_seconds_def)
  have "not_valid_after (fst cert) = whole_seconds (now + 3650 * 86400000000)"
    by (simp add: cert builder)
  then show "not_valid_after (fst cert) = now - now mod 1000000 + 3650 * 86400000000"
    by (simp only: whole_seconds_add_days) (simp add: whole_seconds_def)
  show "cert_public_key (fst cert) = public_key lib key"
    by (simp add: cert builder)
  show "earliest_utc_time \<le> now" by (rule early)
qed


text \<open>
  C5, as amended. A call of \<^verbatim>\<open>generate_certificate\<close> at time \<open>now\<close> that ends with an
  exception (of the key generation, of the builder, which refuses a date before 1950, of
  the signing) leaves the table of stored rows as it was. A call that returns has issued
  a certificate for the public key of the key it generated, valid from \<open>now\<close> cut to
  the whole second until 3650 days after that, which is \<open>now\<close> to \<open>now\<close> plus 3650 days
  when \<open>now\<close> has no fraction of a second; and it has written one row that holds the new
  private key, this certificate and \<^verbatim>\<open>certificate_expires\<close> = \<open>now\<close> plus 3650 days.
  The stored row is the old one or the new one, never a mixture.
\<close>

theorem generate_certificate_window_and_persistence:
  "(\<forall>e. fst (generate_certificate netloc lib now self db) = Inl e \<longrightarrow>
        snd (snd (generate_certificate netloc lib now self db)) = db)
   \<and> (fst (generate_certificate netloc lib now self db) = Inr () \<longrightarrow>
        (\<exists>key nm builder cert.
           generate_private_key lib = Inr key
           \<and> build_certificate lib nm key now (now + timedelta_days 3650) = Inr builder
           \<and> sign_certificate lib builder key = Inr cert
           \<and> not_valid_before (fst cert) = now - now mod 1000000
           \<and> not_valid_after (fst cert)
               = now - now mod 1000000 + 3650 * (24 * 60 * 60 * 1000000)
           \<and> cert_public_key (fst cert) = public_key lib key
           \<and> (now mod 1000000 = 0 \<longrightarrow>
                 not_valid_before (fst cert) = now
                 \<and> not_valid_after (fst cert) = now + 3650 * (24 * 60 * 60 * 1000000))
           \<and> (let self' = self\<lparr>private_key := private_bytes lib key,
                               certificate_expires :=
                                 Some (now + 3650 * (24 * 60 * 60 * 1000000)),
                               x509_certificate := public_bytes lib cert\<rparr>
                in generate_certificate netloc lib now self db
                     = (Inr (), self', db(pk self \<mapsto> self')))))"
proof (intro conjI allI impI)
  fix e
  assume "fst (generate_certificate netloc lib now self db) = Inl e"
  then show "snd (snd (generate_certificate netloc lib now self db)) = db"
    by (rule generate_certificate_failure)
next
  assume "fst (generate_certificate netloc lib now self db) = Inr ()"
  then obtain host key nm builder cert where key: "generate_private_key lib = Inr key"
    and b: "build_certificate lib nm key now (now + 3650 * 86400000000) = Inr builder"
    and c: "sign_certificate lib builder key = Inr cert"
    and res: "generate_certificate netloc lib now self db =
               (Inr (),
                self\<lparr>private_key := private_bytes lib key,
                     certificate_expires := Some (now + 3650 * 86400000000),
                     x509_certificate := public_bytes lib cert\<rparr>,
                save (self\<lparr>private_key := private_bytes lib key,
                     certificate_expires := Some (now + 3650 * 86400000000),
                     x509_certificate := public_bytes lib cert\<rparr>) db)"
    using generate_certificate_success [of netloc lib now self db "()"] by blast
  have td: "timedelta_days 3650 = 3650 * 86400000000" by (simp add: timedelta_days_def)
  have day: "(24::int) * 60 * 60 * 1000000 = 86400000000" by simp
  note w = issued_certificate_window [OF b c]
  have "build_certificate lib nm key now (now + timedelta_days 3650) = Inr builder"
    unfolding td by (rule b)
  moreover have "not_valid_before (fst cert) = now - now mod 1000000" by (rule w(1))
  moreover have "not_valid_after (fst cert)
               = now - now mod 1000000 + 3650 * (24 * 60 * 60 * 1000000)"
    using w(2) by simp
  moreover have "cert_public_key (fst cert) = public_key lib key" by (rule w(3))
  moreover have "now mod 1000000 = 0 \<longrightarrow>
                 not_valid_before (fst cert) = now
                 \<and> not_valid_after (fst cert) = now + 3650 * (24 * 60 * 60 * 1000000)"
    using w(1,2) by simp
  moreover have "let self' = self\<lparr>private_key := private_bytes lib key,
                               certificate_expires :=
                                 Some (now + 3650 * (24 * 60 * 60 * 1000000)),
                               x509_certificate := public_bytes lib cert\<rparr>
                in generate_certificate netloc lib now self db
                     = (Inr (), self', db(pk self \<mapsto> self'))"
    unfolding Let_def by (simp add: res save_def)
  ultimately show "\<exists>key nm builder cert.
           generate_private_key lib = Inr key
           \<and> build_certificate lib nm key now (now + timedelta_days 3650) = Inr builder
           \<and> sign_certificate lib builder key = Inr cert
           \<and> not_valid_before (fst cert) = now - now mod 1000000
           \<and> not_valid_after (fst cert)
               = now - now mod 1000000 + 3650 * (24 * 60 * 60 * 1000000)
           \<and> cert_public_key (fst cert) = public_key lib key
           \<and> (now mod 1000000 = 0 \<longrightarrow>
                 not_valid_before (fst cert) = now
                 \<and> not_valid_after (fst cert) = now + 3650 * (24 * 60 * 60 * 1000000))
           \<and> (let self' = self\<lparr>private_key := private_bytes lib key,
                               certificate_expires :=
                                 Some (now + 3650 * (24 * 60 * 60 * 1000000)),
                               x509_certificate := public_bytes lib cert\<rparr>
                in generate_certificate netloc lib now self db
                     = (Inr (), self', db(pk self \<mapsto> self')))"
    using key c by blast
qed


lemma example_generate_certificate:
  "build_certificate example_crypto ''sp.example.com'' 17 example_now
      (example_now + timedelta_days 3650) = Inr example_builder"
  "sign_certificate example_crypto example_builder 17 = Inr example_certificate"
  "generate_certificate example_netloc example_crypto example_now example_idp
      [1 \<mapsto> example_idp]
    = (Inr (),
       example_idp\<lparr>private_key := ''PRIVATE KEY'',
                    certificate_expires := Some 64155067200250000,
                    x509_certificate := public_bytes example_crypto example_certificate\<rparr>,
       [1 \<mapsto> example_idp\<lparr>private_key := ''PRIVATE KEY'',
                    certificate_expires := Some 64155067200250000,
                    x509_certificate := public_bytes example_crypto example_certificate\<rparr>])"
proof -
  show b: "build_certificate example_crypto ''sp.example.com'' 17 example_now
      (example_now + timedelta_days 3650) = Inr example_builder"
    by (simp add: build_certificate_def example_crypto_def example_now_def timedelta_days_def
        earliest_utc_time_def example_builder_def)
  show c: "sign_certificate example_crypto example_builder 17 = Inr example_certificate"
    by (simp add: sign_certificate_def example_crypto_def example_builder_def
        example_certificate_def whole_seconds_def Let_def)
  have nl: "example_netloc (base_url example_idp) = Inr ''sp.example.com''"
    by (simp add: example_netloc_def example_idp_def)
  have add: "datetime_add example_now (timedelta_days 3650) = Inr 64155067200250000"
    by (simp add: datetime_add_def timedelta_days_def datetime_max_def example_now_def)
  have k: "generate_private_key example_crypto = Inr 17"
    "x509_name example_crypto ''sp.example.com'' = Inr ''sp.example.com''"
    "private_bytes example_crypto 17 = ''PRIVATE KEY''"
    by (simp_all add: example_crypto_def)
  have b': "build_certificate example_crypto ''sp.example.com'' 17 example_now
      64155067200250000 = Inr example_builder"
    using b by (simp add: example_now_def timedelta_days_def)
  have pk1: "pk example_idp = 1" by (simp add: example_idp_def)
  show "generate_certificate example_netloc example_crypto example_now example_idp
      [1 \<mapsto> example_idp]
    = (Inr (),
       example_idp\<lparr>private_key := ''PRIVATE KEY'',
                    certificate_expires := Some 64155067200250000,
                    x509_certificate := public_bytes example_crypto example_certificate\<rparr>,
       [1 \<mapsto> example_idp\<lparr>private_key := ''PRIVATE KEY'',
                    certificate_expires := Some 64155067200250000,
                    x509_certificate := public_bytes example_crypto example_certificate\<rparr>])"
    by (simp add: generate_certificate_def nl add k b' c Let_def save_def pk1)
qed

text \<open>
  C5 as stated fails at a clock reading with a fraction of a second: the certificate
  issued at 12:00:00.250000 is valid from 12:00:00, not from the time of the call, and
  until a quarter of a second before the \<^verbatim>\<open>certificate_expires\<close> that is stored.
\<close>

theorem generate_certificate_counterexample:
  "fst (generate_certificate example_netloc example_crypto example_now example_idp
          [1 \<mapsto> example_idp]) = Inr ()
   \<and> build_certificate example_crypto ''sp.example.com'' 17 example_now
         (example_now + timedelta_days 3650) = Inr example_builder
   \<and> sign_certificate example_crypto example_builder 17 = Inr example_certificate
   \<and> x509_certificate (fst (snd (generate_certificate example_netloc example_crypto
         example_now example_idp [1 \<mapsto> example_idp])))
       = public_bytes example_crypto example_certificate
   \<and> certificate_expires (fst (snd (generate_certificate example_netloc example_crypto
         example_now example_idp [1 \<mapsto> example_idp])))
       = Some (example_now + timedelta_days 3650)
   \<and> not_valid_before (fst example_certificate) = example_now - 250000
   \<and> not_valid_before (fst example_certificate) \<noteq> example_now
   \<and> not_valid_after (fst example_certificate) = example_now - 250000 + timedelta_days 3650
   \<and> not_valid_after (fst example_certificate) \<noteq> example_now + timedelta_days 3650"
proof -
  note g = example_generate_certificate(3)
  have "fst (generate_certificate example_netloc example_crypto example_now example_idp
          [1 \<mapsto> example_idp]) = Inr ()"
    by (simp only: g fst_conv)
  moreover have "x509_certificate (fst (snd (generate_certificate example_netloc example_crypto
         example_now example_idp [1 \<mapsto> example_idp])))
       = public_bytes example_crypto example_certificate"
    by (simp only: g fst_conv snd_conv) simp
  moreover have "certificate_expires (fst (snd (generate_certificate example_netloc
         example_crypto example_now example_idp [1 \<mapsto> example_idp])))
       = Some (example_now + timedelta_days 3650)"
    by (simp only: g fst_conv snd_conv) (simp add: example_now_def timedelta_days_def)
  moreover have "not_valid_before (fst example_certificate) = example_now - 250000
   \<and> not_valid_before (fst example_certificate) \<noteq> example_now
   \<and> not_valid_after (fst example_certificate) = example_now - 250000 + timedelta_days 3650
   \<and> not_valid_after (fst example_certificate) \<noteq> example_now + timedelta_days 3650"
    by (simp add: example_certificate_def example_now_def timedelta_days_def)
  ultimately show ?thesis
    using example_generate_certificate(1,2) by (intro conjI) simp_all
qed


theorem generate_certificate_window_and_persistence_witness:
  "fst (generate_certificate example_netloc example_crypto example_now example_idp
          [1 \<mapsto> example_idp]) = Inr ()
   \<and> snd (snd (generate_certificate example_netloc example_crypto example_now example_idp
                  [1 \<mapsto> example_idp])) 1
     = Some (example_idp\<lparr>private_key := ''PRIVATE KEY'',
                          certificate_expires := Some 64155067200250000,
                          x509_certificate := ''CERTIFICATE''\<rparr>)
   \<and> fst (generate_certificate example_netloc
             (example_crypto\<lparr>sign := (\<lambda>content key. Inl (LibraryError ''signing''))\<rparr>)
             example_now example_idp [1 \<mapsto> example_idp])
     = Inl (LibraryError ''signing'')
   \<and> snd (snd (generate_certificate example_netloc
             (example_crypto\<lparr>sign := (\<lambda>content key. Inl (LibraryError ''signing''))\<rparr>)
             example_now example_idp [1 \<mapsto> example_idp]))
     = [1 \<mapsto> example_idp]"
proof -
  let ?bad = "example_crypto\<lparr>sign := (\<lambda>content key. Inl (LibraryError ''signing''))\<rparr>"
  have ok: "fst (generate_certificate example_netloc example_crypto example_now example_idp
                  [1 \<mapsto> example_idp]) = Inr ()"
    by (simp only: example_generate_certificate(3) fst_conv)
  have nl: "example_netloc (base_url example_idp) = Inr ''sp.example.com''"
    by (simp add: example_netloc_def example_idp_def)
  have add: "datetime_add example_now (timedelta_days 3650) = Inr 64155067200250000"
    by (simp add: datetime_add_def timedelta_days_def datetime_max_def example_now_def)
  have failed: "fst (generate_certificate example_netloc ?bad example_now example_idp
                  [1 \<mapsto> example_idp]) = Inl (LibraryError ''signing'')"
  proof -
    have kb: "generate_private_key example_crypto = Inr 17"
      "x509_name example_crypto ''sp.example.com'' = Inr ''sp.example.com''"
      by (simp_all add: example_crypto_def)
    have bb: "build_certificate ?bad ''sp.example.com'' 17 example_now 64155067200250000
        = Inr example_builder"
      by (simp add: build_certificate_def example_crypto_def example_now_def
          earliest_utc_time_def example_builder_def)
    have sb: "sign_certificate ?bad example_builder 17 = Inl (LibraryError ''signing'')"
      by (simp add: sign_certificate_def Let_def)
    show ?thesis
      by (simp add: generate_certificate_def nl add kb bb sb Let_def)
  qed
  have pk1: "pk example_idp = 1" by (simp add: example_idp_def)
  have pem: "public_bytes example_crypto cert = ''CERTIFICATE''" for cert
    by (cases cert) (simp add: example_crypto_def)
  from ok generate_certificate_window_and_persistence
            [of example_netloc example_crypto example_now example_idp "[1 \<mapsto> example_idp]"]
  obtain key cert where "generate_private_key example_crypto = Inr key"
    and res: "generate_certificate example_netloc example_crypto example_now example_idp
                [1 \<mapsto> example_idp]
       = (Inr (),
          example_idp\<lparr>private_key := private_bytes example_crypto key,
             certificate_expires := Some (example_now + 3650 * (24 * 60 * 60 * 1000000)),
             x509_certificate := public_bytes example_crypto cert\<rparr>,
          [1 \<mapsto> example_idp](pk example_idp \<mapsto>
            example_idp\<lparr>private_key := private_bytes example_crypto key,
             certificate_expires := Some (example_now + 3650 * (24 * 60 * 60 * 1000000)),
             x509_certificate := public_bytes example_crypto cert\<rparr>))"
    unfolding Let_def by blast
  have stored: "snd (snd (generate_certificate example_netloc example_crypto example_now
                  example_idp [1 \<mapsto> example_idp])) 1
     = Some (example_idp\<lparr>private_key := ''PRIVATE KEY'',
                          certificate_expires := Some 64155067200250000,
                          x509_certificate := ''CERTIFICATE''\<rparr>)"
    unfolding res by (simp add: pk1 pem example_now_def) (simp add: example_crypto_def)
  from failed generate_certificate_window_and_persistence
            [of example_netloc ?bad example_now example_idp "[1 \<mapsto> example_idp]"]
  have kept: "snd (snd (generate_certificate example_netloc ?bad example_now example_idp
                  [1 \<mapsto> example_idp])) = [1 \<mapsto> example_idp]"
    by blast
  from ok stored failed kept show ?thesis by (intro conjI)
qed

end
